theory Spec2Isabelle
  imports Complex_Main "HOL-Library.Sublist"
begin

section \<open>JavaScript values and objects\<close>

text \<open>
  The service passes JSON data around as loosely typed objects
  (\<^verbatim>\<open>Record<string, unknown>\<close>, \<^verbatim>\<open>UserAccountAutoLiq\<close>).  A value is one of
  the JSON shapes; an object is a finite map from property names to values, where an
  absent key reads as \<^verbatim>\<open>undefined\<close>.
\<close>

datatype jsval =
    JNull
  | JBool bool
  | JNum rat
  | JStr string
  | JArr "jsval list"
  | JObj "(string \<times> jsval) list"

type_synonym jsobj = "string \<rightharpoonup> jsval"

text \<open>Truthiness of a property read (\<^verbatim>\<open>!x.id\<close> negates it); \<open>None\<close> is \<^verbatim>\<open>undefined\<close>.\<close>

fun truthy :: "jsval option \<Rightarrow> bool" where
  "truthy None = False"
| "truthy (Some JNull) = False"
| "truthy (Some (JBool b)) = b"
| "truthy (Some (JNum n)) = (n \<noteq> 0)"
| "truthy (Some (JStr s)) = (s \<noteq> [])"
| "truthy (Some (JArr xs)) = True"
| "truthy (Some (JObj kvs)) = True"

text \<open>\<^verbatim>\<open>s.includes(p)\<close>: \<open>p\<close> occurs in \<open>s\<close> as a contiguous substring.\<close>

fun includes_str :: "string \<Rightarrow> string \<Rightarrow> bool" where
  "includes_str [] p = (p = [])"
| "includes_str (c # cs) p = (prefix p (c # cs) \<or> includes_str cs p)"

text \<open>
  \<^verbatim>\<open>String(accountId)\<close> and the template \<^verbatim>\<open>${accountId}\<close> for an integer account id:
  its decimal digits, with a leading minus sign for a negative number.
\<close>

definition digit :: "nat \<Rightarrow> char" where
  "digit n = ''0123456789'' ! n"

fun digits :: "nat \<Rightarrow> string" where
  "digits n = (if n < 10 then [digit n] else digits (n div 10) @ [digit (n mod 10)])"

declare digits.simps [simp del]

definition toString :: "int \<Rightarrow> string" where
  "toString i = (if i < 0 then CHR ''-'' # digits (nat (- i)) else digits (nat i))"

section \<open>Thrown values\<close>

text \<open>
  A \<^verbatim>\<open>catch (err)\<close> block receives either an \<^verbatim>\<open>Error\<close> carrying a message or some
  other thrown value.  Every handler reads the message as
  \<^verbatim>\<open>err instanceof Error ? err.message : dflt\<close>.
\<close>

datatype thrown = Error string | NonError jsval

fun message :: "thrown \<Rightarrow> string \<Rightarrow> string" where
  "message (Error m) dflt = m"
| "message (NonError v) dflt = dflt"

section \<open>The authorized client and the world it acts on\<close>

text \<open>
  \<^verbatim>\<open>UpdateUserAutoLiqResponse\<close>: all three fields are optional; \<open>None\<close> stands for
  an absent (or \<^verbatim>\<open>null\<close>) field.
\<close>

record UpdateUserAutoLiqResponse =
  errorText :: "string option"
  userAccountAutoLiq :: "jsobj option"
  permissionedAccountAutoLiq :: "jsobj option"

text \<open>
  The class \<^verbatim>\<open>TradovateAuth\<close> (lib/auth) is the boundary to the downstream API.  It is
  taken as a parameter: what \<^verbatim>\<open>auth.get\<close> and \<^verbatim>\<open>auth.post\<close> answer for a path
  and its arguments (a thrown value or the parsed payload), and how long one round trip
  takes in milliseconds.
\<close>

record TradovateAuth =
  get :: "string \<Rightarrow> (string \<times> string) list \<Rightarrow> thrown + jsobj list"
  post :: "string \<Rightarrow> jsobj \<Rightarrow> thrown + UpdateUserAutoLiqResponse"
  roundTrip :: nat

datatype call = GET string "(string \<times> string) list" | POST string jsobj

text \<open>
  A cache entry of \<^verbatim>\<open>NodeCache\<close>: the stored value and the time (ms) at which it
  expires.
\<close>

record entry =
  val :: jsobj
  expires :: nat

text \<open>
  The mutable state a request handler can touch: the process-wide cache, the log of
  downstream calls issued so far, and the clock (\<^verbatim>\<open>Date.now()\<close>).
\<close>

record world =
  cache :: "string \<rightharpoonup> entry"
  calls :: "call list"
  now :: nat

definition auth_get ::
  "TradovateAuth \<Rightarrow> string \<Rightarrow> (string \<times> string) list \<Rightarrow> world \<Rightarrow> (thrown + jsobj list) \<times> world" where
  "auth_get auth path params w =
     (get auth path params,
      w\<lparr>calls := calls w @ [GET path params], now := now w + roundTrip auth\<rparr>)"

definition auth_post ::
  "TradovateAuth \<Rightarrow> string \<Rightarrow> jsobj \<Rightarrow> world \<Rightarrow> (thrown + UpdateUserAutoLiqResponse) \<times> world" where
  "auth_post auth path body w =
     (post auth path body,
      w\<lparr>calls := calls w @ [POST path body], now := now w + roundTrip auth\<rparr>)"

section \<open>lib/risk: reading the auto-liquidation settings\<close>

text \<open>
  The test of both \<^verbatim>\<open>catch\<close> blocks of \<^verbatim>\<open>getAutoLiqSettings\<close>: the failure is
  swallowed when the message includes \<^verbatim>\<open>401\<close> or \<^verbatim>\<open>Access is denied\<close>, and
  rethrown otherwise.  A thrown value that is no \<^verbatim>\<open>Error\<close> has the message
  \<^verbatim>\<open>""\<close>.
\<close>

definition denied :: "thrown \<Rightarrow> bool" where
  "denied err =
     (let msg = message err [] in
      includes_str msg ''401'' \<or> includes_str msg ''Access is denied'')"

text \<open>\<^verbatim>\<open>xs[0] ?? {}\<close>\<close>

fun firstOrEmpty :: "jsobj list \<Rightarrow> jsobj" where
  "firstOrEmpty [] = Map.empty"
| "firstOrEmpty (x # xs) = x"

definition ownerPath :: string where
  "ownerPath = ''/userAccountAutoLiq/deps''"

definition permPath :: string where
  "permPath = ''/permissionedAccountAutoLiq/deps''"

definition masterid :: "int \<Rightarrow> (string \<times> string) list" where
  "masterid accountId = [(''masterid'', toString accountId)]"

text \<open>
  One \<^verbatim>\<open>try { xs = await auth.get(...) } catch (err) { ... }\<close> block: the list the
  variable holds afterwards (it keeps its initial \<^verbatim>\<open>[]\<close> when a denial is
  swallowed), or the rethrown value.
\<close>

definition tryGet ::
  "TradovateAuth \<Rightarrow> string \<Rightarrow> int \<Rightarrow> world \<Rightarrow> (thrown + jsobj list) \<times> world" where
  "tryGet auth path accountId w =
     (case auth_get auth path (masterid accountId) w of
        (Inr xs, w') \<Rightarrow> (Inr xs, w')
      | (Inl err, w') \<Rightarrow> (if denied err then (Inr [], w') else (Inl err, w')))"

definition getAutoLiqSettings ::
  "TradovateAuth \<Rightarrow> int \<Rightarrow> world \<Rightarrow> (thrown + jsobj list) \<times> world" where
  "getAutoLiqSettings auth accountId w =
     (case tryGet auth ownerPath accountId w of
        (Inl err, w1) \<Rightarrow> (Inl err, w1)
      | (Inr userAutoLiq, w1) \<Rightarrow>
          (case tryGet auth permPath accountId w1 of
             (Inl err, w2) \<Rightarrow> (Inl err, w2)
           | (Inr permAutoLiq, w2) \<Rightarrow>
               (let perm = firstOrEmpty permAutoLiq;
                    user = firstOrEmpty userAutoLiq;
                    merged = perm ++ user
                in if \<not> truthy (perm ''id'') \<and> \<not> truthy (user ''id'')
                   then (Inr [], w2)
                   else (Inr [merged], w2))))"

section \<open>lib/risk: writing the auto-liquidation settings\<close>

definition updatePath :: string where
  "updatePath = ''/userAccountAutoLiq/updateuserautoliq''"

text \<open>\<^verbatim>\<open>{ accountId, ...settings }\<close>\<close>

definition updateBody :: "int \<Rightarrow> jsobj \<Rightarrow> jsobj" where
  "updateBody accountId settings = [''accountId'' \<mapsto> JNum (of_int accountId)] ++ settings"

text \<open>
  \<^verbatim>\<open>result.userAccountAutoLiq ?? result.permissionedAccountAutoLiq\<close>: the owner shape
  when it is there, the permissioned shape otherwise.
\<close>

definition entityOf :: "UpdateUserAutoLiqResponse \<Rightarrow> jsobj option" where
  "entityOf result =
     (case userAccountAutoLiq result of
        Some u \<Rightarrow> Some u
      | None \<Rightarrow> permissionedAccountAutoLiq result)"

definition setAutoLiqSettings ::
  "TradovateAuth \<Rightarrow> int \<Rightarrow> jsobj \<Rightarrow> world \<Rightarrow> (thrown + jsobj) \<times> world" where
  "setAutoLiqSettings auth accountId settings w =
     (case auth_post auth updatePath (updateBody accountId settings) w of
        (Inl err, w') \<Rightarrow> (Inl err, w')
      | (Inr result, w') \<Rightarrow>
          (case errorText result of
             Some (c # cs) \<Rightarrow>
               (Inl (Error (''Failed to set auto-liq for account '' @ toString accountId
                            @ '': '' @ (c # cs))), w')
           | _ \<Rightarrow>
               (case entityOf result of
                  None \<Rightarrow>
                    (Inl (Error (''No auto-liq entity returned for account ''
                                 @ toString accountId)), w')
                | Some autoLiq \<Rightarrow> (Inr autoLiq, w'))))"

section \<open>microservice/cache: the settings cache\<close>

text \<open>
  \<^verbatim>\<open>new NodeCache({ stdTTL: 3600, checkperiod: 600 })\<close>.  A key set at time \<open>t\<close>
  expires at \<open>t + stdTTL * 1000\<close>; \<^verbatim>\<open>get\<close> answers \<^verbatim>\<open>undefined\<close> for a missing
  key and for an entry whose expiry time lies in the past.
\<close>

definition stdTTL :: nat where
  "stdTTL = 3600"

definition cache_get :: "(string \<rightharpoonup> entry) \<Rightarrow> nat \<Rightarrow> string \<Rightarrow> jsobj option" where
  "cache_get c t key =
     (case c key of
        None \<Rightarrow> None
      | Some e \<Rightarrow> if expires e \<noteq> 0 \<and> expires e < t then None else Some (val e))"

definition riskKey :: "int \<Rightarrow> string" where
  "riskKey accountId = ''risk:'' @ toString accountId"

definition getCachedRisk :: "int \<Rightarrow> world \<Rightarrow> jsobj option" where
  "getCachedRisk accountId w = cache_get (cache w) (now w) (riskKey accountId)"

definition setCachedRisk :: "int \<Rightarrow> jsobj \<Rightarrow> world \<Rightarrow> world" where
  "setCachedRisk accountId settings w =
     w\<lparr>cache := (cache w)(riskKey accountId \<mapsto>
                    \<lparr>val = settings, expires = now w + stdTTL * 1000\<rparr>)\<rparr>"

definition invalidateCachedRisk :: "int \<Rightarrow> world \<Rightarrow> world" where
  "invalidateCachedRisk accountId w = w\<lparr>cache := (cache w)(riskKey accountId := None)\<rparr>"

section \<open>microservice/routes: the risk handlers\<close>

text \<open>
  What a handler answers: the two success envelopes (status 200) and the failure
  envelope \<^verbatim>\<open>{ success: false, error, code? }\<close> with its status.  In
  \<open>RiskGetResponse\<close> the settings \<open>None\<close> are \<^verbatim>\<open>autoLiq: null\<close>.
\<close>

datatype reply =
    RiskGetResponse "jsobj option" bool
  | RiskSetResponse jsobj
  | ErrorResponse nat string "string option"

definition tokenExpired :: reply where
  "tokenExpired =
     ErrorResponse 401 ''Tradovate token expired. Please reconnect.'' (Some ''TOKEN_EXPIRED'')"

text \<open>The \<^verbatim>\<open>catch\<close> block of the GET handler.\<close>

definition getRiskError :: "thrown \<Rightarrow> reply" where
  "getRiskError error =
     (let msg = message error ''Unknown error'' in
      if includes_str msg ''401'' \<or> includes_str msg ''Access is denied''
      then tokenExpired
      else ErrorResponse 500 msg None)"

text \<open>The handler of \<^verbatim>\<open>GET /risk-management/risk/{accountId}\<close>.\<close>

definition getRiskHandler :: "TradovateAuth \<Rightarrow> int \<Rightarrow> world \<Rightarrow> reply \<times> world" where
  "getRiskHandler auth accountId w =
     (case getCachedRisk accountId w of
        Some cached \<Rightarrow> (RiskGetResponse (Some cached) True, w)
      | None \<Rightarrow>
          (case getAutoLiqSettings auth accountId w of
             (Inl error, w1) \<Rightarrow> (getRiskError error, w1)
           | (Inr settings, w1) \<Rightarrow>
               (case settings of
                  [] \<Rightarrow> (RiskGetResponse None False, w1)
                | autoLiq # rest \<Rightarrow>
                    (RiskGetResponse (Some autoLiq) False,
                     setCachedRisk accountId autoLiq w1))))"

definition allowedFields :: "string list" where
  "allowedFields =
     [''dailyLossAutoLiq'',
      ''dailyProfitAutoLiq'',
      ''weeklyLossAutoLiq'',
      ''weeklyProfitAutoLiq'',
      ''dailyLossAlert'',
      ''dailyLossPercentageAlert'',
      ''marginPercentageAlert'',
      ''dailyLossLiqOnly'',
      ''dailyLossPercentageLiqOnly'',
      ''marginPercentageLiqOnly'',
      ''dailyLossPercentageAutoLiq'',
      ''marginPercentageAutoLiq'']"

text \<open>
  The loop \<^verbatim>\<open>for (const field of allowedFields) if (payload[field] != null)
  settings[field] = payload[field]\<close>, started from the settings collected so far.
\<close>

fun copyFields :: "string list \<Rightarrow> jsobj \<Rightarrow> jsobj \<Rightarrow> jsobj" where
  "copyFields [] payload settings = settings"
| "copyFields (field # rest) payload settings =
     copyFields rest payload
       (if payload field \<noteq> None \<and> payload field \<noteq> Some JNull
        then settings(field := payload field)
        else settings)"

definition noValidParams :: reply where
  "noValidParams =
     ErrorResponse 400
       ''No valid risk parameters provided. Include at least one of: dailyLossAutoLiq, dailyProfitAutoLiq, etc.''
       None"

text \<open>The \<^verbatim>\<open>catch\<close> block of the POST handler.\<close>

definition postRiskError :: "thrown \<Rightarrow> reply" where
  "postRiskError error =
     (let msg = message error ''Unknown error'' in
      if includes_str msg ''401'' \<or> includes_str msg ''Access is denied''
      then tokenExpired
      else if includes_str msg ''Unsupported parameters''
      then ErrorResponse 400 msg (Some ''UNSUPPORTED_PARAMS'')
      else if includes_str msg ''Should be account owner''
      then ErrorResponse 403 ''Insufficient permissions. You are not the account owner.''
             (Some ''NOT_OWNER'')
      else ErrorResponse 500 msg None)"

text \<open>
  The handler of \<^verbatim>\<open>POST /risk-management/risk/{accountId}\<close>;
  \<^verbatim>\<open>Object.keys(settings).length === 0\<close> is \<open>dom settings = {}\<close>.
\<close>

definition postRiskHandler ::
  "TradovateAuth \<Rightarrow> int \<Rightarrow> jsobj \<Rightarrow> world \<Rightarrow> reply \<times> world" where
  "postRiskHandler auth accountId payload w =
     (let settings = copyFields allowedFields payload Map.empty in
      if dom settings = {} then (noValidParams, w)
      else
        (case setAutoLiqSettings auth accountId settings w of
           (Inl error, w1) \<Rightarrow> (postRiskError error, w1)
         | (Inr result, w1) \<Rightarrow>
             (RiskSetResponse result,
              setCachedRisk accountId result (invalidateCachedRisk accountId w1))))"

section \<open>Connection resolution\<close>

definition noTokenFound :: "string \<Rightarrow> string \<Rightarrow> string" where
  "noTokenFound userId connectionRef =
     ''No Tradovate token found for user '' @ userId @ '', connection '' @ connectionRef"

text \<open>
  microservice/firebase: \<^verbatim>\<open>getConnectionToken\<close> over the Realtime Database.  The
  database is a parameter: the value stored at a path, \<open>None\<close> for \<^verbatim>\<open>null\<close>.
\<close>

definition getConnectionToken_firebase ::
  "(string \<Rightarrow> jsobj option) \<Rightarrow> string \<Rightarrow> string \<Rightarrow> thrown + jsobj" where
  "getConnectionToken_firebase db userId connectionRef =
     (case db (''renewAccessTokens/'' @ userId @ ''/'' @ connectionRef) of
        None \<Rightarrow> Inl (Error (noTokenFound userId connectionRef))
      | Some d \<Rightarrow>
          if \<not> truthy (d ''token'')
          then Inl (Error (noTokenFound userId connectionRef))
          else Inr d)"

text \<open>
  The Supabase variant.  The table is a parameter: what
  \<^verbatim>\<open>.eq("uid", userId).eq("ref", connectionRef).single()\<close> answers, a row and an
  error (its message), either of which may be \<^verbatim>\<open>null\<close>.
\<close>

record queryResult =
  data :: "jsobj option"
  error :: "string option"

definition defaultUrl :: string where
  "defaultUrl = ''https://demo.tradovateapi.com''"

definition tokenEmpty :: "string \<Rightarrow> string \<Rightarrow> string" where
  "tokenEmpty userId connectionRef =
     ''Token is empty for user '' @ userId @ '', connection '' @ connectionRef"

definition getConnectionToken_supabase ::
  "(string \<Rightarrow> string \<Rightarrow> queryResult) \<Rightarrow> string \<Rightarrow> string \<Rightarrow> thrown + jsobj" where
  "getConnectionToken_supabase table userId connectionRef =
     (let r = table userId connectionRef in
      case error r of
        Some m \<Rightarrow> Inl (Error (noTokenFound userId connectionRef @ '': '' @ m))
      | None \<Rightarrow>
          (case data r of
             None \<Rightarrow> Inl (Error (noTokenFound userId connectionRef))
           | Some d \<Rightarrow>
               if \<not> truthy (d ''token'')
               then Inl (Error (tokenEmpty userId connectionRef))
               else Inr (Map.empty
                         (''token'' := d ''token'',
                          ''url'' := Some (case d ''url'' of
                                            None \<Rightarrow> JStr defaultUrl
                                          | Some JNull \<Rightarrow> JStr defaultUrl
                                          | Some u \<Rightarrow> u)))))"

text \<open>
  What the authentication step answers: the credentials handed to the route handlers,
  with the client \<^verbatim>\<open>TradovateAuth.fromToken(baseUrl, token)\<close> given by its two
  arguments, or a response \<^verbatim>\<open>{ error }\<close> with its status that ends the request.
\<close>

datatype authOutcome =
    Authenticated string string string "jsval option"
  | Takeover nat string

text \<open>The \<^verbatim>\<open>catch\<close> block, the same in \<^verbatim>\<open>authPlugin\<close> and \<^verbatim>\<open>firebaseAuth\<close>.\<close>

definition authError :: "thrown \<Rightarrow> authOutcome" where
  "authError err =
     (let msg = message err ''Authentication failed'' in
      if includes_str msg ''Firebase ID token has expired'' \<or> includes_str msg ''Decoding Firebase''
      then Takeover 401 ''Invalid or expired auth token''
      else if includes_str msg ''No Tradovate token found''
      then Takeover 404 msg
      else Takeover 401 msg)"

text \<open>
  The request as the authentication step reads it: the \<^verbatim>\<open>Authorization\<close> header and
  the three places a connection reference may come from (\<open>None\<close> when absent or
  \<^verbatim>\<open>null\<close>).
\<close>

record request =
  authorization :: "string option"
  payloadRef :: "string option"
  queryRef :: "string option"
  headerRef :: "string option"

text \<open>\<^verbatim>\<open>a ?? b ?? c\<close>\<close>

definition connectionRefOf :: "request \<Rightarrow> string option" where
  "connectionRefOf req =
     (case payloadRef req of
        Some r \<Rightarrow> Some r
      | None \<Rightarrow> (case queryRef req of Some r \<Rightarrow> Some r | None \<Rightarrow> headerRef req))"

text \<open>
  Step 5: \<^verbatim>\<open>connection.url.endsWith("/v1") ? connection.url : `${connection.url}/v1`\<close>
  and the construction of the client.  The method call throws a \<^verbatim>\<open>TypeError\<close> on a
  url that is no string.
\<close>

definition makeClient :: "string \<Rightarrow> string \<Rightarrow> jsobj \<Rightarrow> authOutcome" where
  "makeClient userId connectionRef connection =
     (case connection ''url'' of
        Some (JStr u) \<Rightarrow>
          Authenticated userId connectionRef (if suffix ''/v1'' u then u else u @ ''/v1'')
            (connection ''token'')
      | None \<Rightarrow>
          authError (Error ''Cannot read properties of undefined (reading 'endsWith')'')
      | Some JNull \<Rightarrow>
          authError (Error ''Cannot read properties of null (reading 'endsWith')'')
      | Some v \<Rightarrow> authError (Error ''connection.url.endsWith is not a function''))"

text \<open>
  The authentication step, over the token verifier \<open>verifyAuthToken\<close> (it answers the
  user id or throws) and the credential lookup \<open>getConnectionToken\<close>; \<open>missingRef\<close>
  is the text of the 400 response, the one thing besides the lookup in which the two
  copies of this code differ.
\<close>

definition authenticateWith ::
  "string \<Rightarrow> (string \<Rightarrow> thrown + string) \<Rightarrow> (string \<Rightarrow> string \<Rightarrow> thrown + jsobj)
     \<Rightarrow> request \<Rightarrow> authOutcome" where
  "authenticateWith missingRef verifyAuthToken getConnectionToken req =
     (case authorization req of
        None \<Rightarrow> Takeover 401 ''Missing Authorization: Bearer <firebase_id_token>''
      | Some authHeader \<Rightarrow>
          if authHeader = [] \<or> \<not> prefix ''Bearer '' authHeader
          then Takeover 401 ''Missing Authorization: Bearer <firebase_id_token>''
          else
            (let idToken = drop 7 authHeader in
             if idToken = [] then Takeover 401 ''Empty auth token''
             else
               (case verifyAuthToken idToken of
                  Inl err \<Rightarrow> authError err
                | Inr userId \<Rightarrow>
                    (case connectionRefOf req of
                       None \<Rightarrow> Takeover 400 missingRef
                     | Some connectionRef \<Rightarrow>
                         if connectionRef = [] then Takeover 400 missingRef
                         else
                           (case getConnectionToken userId connectionRef of
                              Inl err \<Rightarrow> authError err
                            | Inr connection \<Rightarrow>
                                makeClient userId connectionRef connection)))))"

text \<open>\<^verbatim>\<open>authPlugin\<close>: the Hapi scheme, which looks the credential up in Supabase.\<close>

definition authPlugin ::
  "(string \<Rightarrow> thrown + string) \<Rightarrow> (string \<Rightarrow> string \<Rightarrow> queryResult) \<Rightarrow> request \<Rightarrow> authOutcome" where
  "authPlugin verifyAuthToken table =
     authenticateWith
       ''Missing connectionRef (in payload, query param, or X-Connection-Ref header)''
       verifyAuthToken (getConnectionToken_supabase table)"

text \<open>\<^verbatim>\<open>firebaseAuth\<close>: the Express middleware, which reads the Realtime Database.\<close>

definition firebaseAuth ::
  "(string \<Rightarrow> thrown + string) \<Rightarrow> (string \<Rightarrow> jsobj option) \<Rightarrow> request \<Rightarrow> authOutcome" where
  "firebaseAuth verifyAuthToken db =
     authenticateWith
       ''Missing connectionRef (in body, query param, or X-Connection-Ref header)''
       verifyAuthToken (getConnectionToken_firebase db)"

section \<open>Vocabulary of the properties\<close>

text \<open>
  A lookup that contributes no record to the merge: it returned an empty list, or it
  failed with a denial that the read swallows.
\<close>

definition noRecord :: "thrown + jsobj list \<Rightarrow> bool" where
  "noRecord r = (case r of Inr xs \<Rightarrow> xs = [] | Inl err \<Rightarrow> denied err)"

text \<open>
  A lookup that contributes no identifiable record: the first element of its list, if
  any, has no truthy \<^verbatim>\<open>id\<close>, or it failed with a denial that the read swallows.
\<close>

definition unidentified :: "thrown + jsobj list \<Rightarrow> bool" where
  "unidentified r =
     (case r of Inr xs \<Rightarrow> \<not> truthy (firstOrEmpty xs ''id'') | Inl err \<Rightarrow> denied err)"

text \<open>Example inputs, used to instantiate the theorems below.\<close>

definition emptyWorld :: world where
  "emptyWorld = \<lparr>cache = Map.empty, calls = [], now = 0\<rparr>"

text \<open>
  A client whose owner endpoint returns one record and whose permissioned endpoint
  fails with a 401.
\<close>

definition ownerOnlyAuth :: "jsobj \<Rightarrow> TradovateAuth" where
  "ownerOnlyAuth r =
     \<lparr>get = (\<lambda>path params.
               if path = ownerPath then Inr [r] else Inl (Error ''401 Unauthorized'')),
      post = (\<lambda>path body. Inl (Error ''unused'')),
      roundTrip = 20\<rparr>"

text \<open>A client given by the answers of its three endpoints.\<close>

definition fixedAuth ::
  "(thrown + jsobj list) \<Rightarrow> (thrown + jsobj list) \<Rightarrow> (thrown + UpdateUserAutoLiqResponse)
     \<Rightarrow> TradovateAuth" where
  "fixedAuth owner perm upd =
     \<lparr>get = (\<lambda>path params. if path = ownerPath then owner else perm),
      post = (\<lambda>path body. upd),
      roundTrip = 20\<rparr>"

definition ownerRecord :: jsobj where
  "ownerRecord = [''id'' \<mapsto> JNum 7, ''dailyLossAutoLiq'' \<mapsto> JNum 500]"

definition permRecord :: jsobj where
  "permRecord =
     [''id'' \<mapsto> JNum 7, ''dailyLossAutoLiq'' \<mapsto> JNum 300, ''dailyProfitAutoLiq'' \<mapsto> JNum 1000]"

definition unauthorized :: thrown where
  "unauthorized = Error ''401 Unauthorized''"

definition rateLimited :: thrown where
  "rateLimited = Error ''429 Too Many Requests''"

definition updateAnswer ::
  "string option \<Rightarrow> jsobj option \<Rightarrow> jsobj option \<Rightarrow> thrown + UpdateUserAutoLiqResponse" where
  "updateAnswer t u p =
     Inr \<lparr>errorText = t, userAccountAutoLiq = u, permissionedAccountAutoLiq = p\<rparr>"

text \<open>A world whose cache holds an unexpired entry for account 42.\<close>

definition cachedWorld :: "jsobj \<Rightarrow> world" where
  "cachedWorld r =
     \<lparr>cache = [riskKey 42 \<mapsto> \<lparr>val = r, expires = 5000\<rparr>], calls = [], now = 1000\<rparr>"

definition writePayload :: jsobj where
  "writePayload =
     [''connectionRef'' \<mapsto> JStr ''TS-1'', ''dailyLossAutoLiq'' \<mapsto> JNum 500,
      ''dailyProfitAutoLiq'' \<mapsto> JNum 1000]"

text \<open>
  A verified user, a request naming the connection \<^verbatim>\<open>TS-1\<close>, and a credential row
  whose token is the empty string, in the Supabase table and in the Realtime Database.
\<close>

definition verifiedUser :: "string \<Rightarrow> thrown + string" where
  "verifiedUser idToken = Inr ''u1''"

definition refRequest :: request where
  "refRequest =
     \<lparr>authorization = Some ''Bearer abc'', payloadRef = None, queryRef = Some ''TS-1'',
      headerRef = None\<rparr>"

definition emptyTokenRow :: jsobj where
  "emptyTokenRow = [''token'' \<mapsto> JStr [], ''url'' \<mapsto> JStr ''https://demo.tradovateapi.com'']"

definition emptyTokenTable :: "string \<Rightarrow> string \<Rightarrow> queryResult" where
  "emptyTokenTable userId connectionRef = \<lparr>data = Some emptyTokenRow, error = None\<rparr>"

definition emptyTokenDb :: "string \<Rightarrow> jsobj option" where
  "emptyTokenDb path = Some emptyTokenRow"

text \<open>A client all of whose calls fail with a 429, and one whose update succeeds.\<close>

definition failingAuth :: TradovateAuth where
  "failingAuth = fixedAuth (Inl rateLimited) (Inl rateLimited) (Inl rateLimited)"

definition writeAuth :: TradovateAuth where
  "writeAuth =
     fixedAuth (Inl rateLimited) (Inl rateLimited) (updateAnswer None (Some permRecord) None)"

text \<open>The world after a write for account 42 over a cache that held another record.\<close>

definition afterWrite :: world where
  "afterWrite = snd (postRiskHandler writeAuth 42 writePayload (cachedWorld ownerRecord))"

section \<open>Basic facts about the model\<close>

lemma includes_str_self: "includes_str t t"
  by (cases t) simp_all

lemma includes_str_append: "includes_str (xs @ t) t"
  by (induction xs) (simp_all add: includes_str_self)

lemma toString_42: "toString 42 = ''42''"
  by (simp add: toString_def digits.simps digit_def)

lemma fst_tryGet:
  "fst (tryGet auth path a w) =
     (case get auth path (masterid a) of
        Inr xs \<Rightarrow> Inr xs
      | Inl err \<Rightarrow> if denied err then Inr [] else Inl err)"
  by (simp add: tryGet_def auth_get_def split: sum.splits)

lemma snd_tryGet:
  "snd (tryGet auth path a w) =
     w\<lparr>calls := calls w @ [GET path (masterid a)], now := now w + roundTrip auth\<rparr>"
  by (simp add: tryGet_def auth_get_def split: sum.splits)

lemma fst_getAutoLiqSettings:
  "fst (getAutoLiqSettings auth a w) =
     (case fst (tryGet auth ownerPath a w) of
        Inl err \<Rightarrow> Inl err
      | Inr us \<Rightarrow>
          (case fst (tryGet auth permPath a (snd (tryGet auth ownerPath a w))) of
             Inl err \<Rightarrow> Inl err
           | Inr ps \<Rightarrow>
               if \<not> truthy (firstOrEmpty ps ''id'') \<and> \<not> truthy (firstOrEmpty us ''id'')
               then Inr [] else Inr [firstOrEmpty ps ++ firstOrEmpty us]))"
  by (simp add: getAutoLiqSettings_def Let_def split: prod.splits sum.splits)

text \<open>The read never touches the cache; only the handler does.\<close>

lemma cache_getAutoLiqSettings:
  "cache (snd (getAutoLiqSettings auth a w)) = cache w"
  by (simp add: getAutoLiqSettings_def tryGet_def auth_get_def Let_def
           split: prod.splits sum.splits)

text \<open>What the filter loop leaves in a field.\<close>

lemma copyFields_apply:
  "copyFields fs payload settings f =
     (if f \<in> set fs \<and> payload f \<noteq> None \<and> payload f \<noteq> Some JNull then payload f
      else settings f)"
  by (induction fs arbitrary: settings) auto

lemma copyFields_empty_iff:
  "dom (copyFields fs payload Map.empty) = {} \<longleftrightarrow>
     (\<forall>f \<in> set fs. payload f = None \<or> payload f = Some JNull)"
  by (auto simp: dom_def copyFields_apply)

text \<open>The write issues exactly one downstream call and leaves the cache alone.\<close>

lemma calls_setAutoLiqSettings:
  "calls (snd (setAutoLiqSettings auth a settings w)) =
     calls w @ [POST updatePath (updateBody a settings)]"
  by (simp add: setAutoLiqSettings_def auth_post_def split: sum.splits option.splits list.splits)

lemma calls_postRiskHandler:
  "calls (snd (postRiskHandler auth a payload w)) =
     (if dom (copyFields allowedFields payload Map.empty) = {} then calls w
      else calls w @ [POST updatePath (updateBody a (copyFields allowedFields payload Map.empty))])"
proof (cases "setAutoLiqSettings auth a (copyFields allowedFields payload Map.empty) w")
  case (Pair r w1)
  then show ?thesis
    using calls_setAutoLiqSettings [of auth a "copyFields allowedFields payload Map.empty" w]
    by (cases r)
       (simp_all add: postRiskHandler_def Let_def setCachedRisk_def invalidateCachedRisk_def)
qed

text \<open>The example inputs.\<close>

lemma paths_differ: "permPath \<noteq> ownerPath"
  by (simp add: permPath_def ownerPath_def)

lemma get_fixedAuth:
  "get (fixedAuth owner perm upd) ownerPath params = owner"
  "get (fixedAuth owner perm upd) permPath params = perm"
  by (simp_all add: fixedAuth_def paths_differ)

lemma post_fixedAuth: "post (fixedAuth owner perm upd) path body = upd"
  by (simp add: fixedAuth_def)

lemma denied_401: "denied (Error ''401 Unauthorized'')"
  by (simp add: denied_def)

lemma denied_unauthorized: "denied unauthorized"
  by (simp add: denied_def unauthorized_def)

lemma not_denied_rateLimited: "\<not> denied rateLimited"
  by (simp add: denied_def rateLimited_def)

lemma truthy_records: "truthy (ownerRecord ''id'')" "truthy (permRecord ''id'')"
  by (simp_all add: ownerRecord_def permRecord_def)

lemma writePayload_fields:
  "copyFields allowedFields writePayload Map.empty =
     [''dailyLossAutoLiq'' \<mapsto> JNum 500, ''dailyProfitAutoLiq'' \<mapsto> JNum 1000]"
  by (simp add: allowedFields_def writePayload_def)

lemma connectionRef_only_fields:
  "copyFields allowedFields [''connectionRef'' \<mapsto> JStr ''X''] Map.empty = Map.empty"
  by (simp add: allowedFields_def)

lemma post_written:
  "fst (postRiskHandler writeAuth 42 writePayload w) = RiskSetResponse permRecord"
  by (simp add: postRiskHandler_def writePayload_fields setAutoLiqSettings_def auth_post_def
        writeAuth_def fixedAuth_def updateAnswer_def entityOf_def)

section \<open>The merged read\<close>

text \<open>
  Claim C1, as the code has it.  When the owner lookup and the permissioned lookup both
  return a record and at least one of the two carries a truthy \<^verbatim>\<open>id\<close>, the read
  returns the permissioned record overlaid by the owner record: a field of either
  record is in the result, and the owner's value stands wherever the owner record has
  the field.  When only one side has a record (the other lookup returned the empty
  list, or was denied) and that record carries a truthy \<^verbatim>\<open>id\<close>, the read returns
  exactly that record.
\<close>

theorem getAutoLiqSettings_merge:
  "(get auth ownerPath (masterid a) = Inr (u # us) \<and> get auth permPath (masterid a) = Inr (p # ps)
      \<and> (truthy (u ''id'') \<or> truthy (p ''id''))
    \<longrightarrow> fst (getAutoLiqSettings auth a w) = Inr [p ++ u]
        \<and> (\<forall>f. (p ++ u) f = (case u f of Some v \<Rightarrow> Some v | None \<Rightarrow> p f)))
   \<and> (get auth ownerPath (masterid a) = Inr (u # us) \<and> noRecord (get auth permPath (masterid a))
      \<and> truthy (u ''id'')
    \<longrightarrow> fst (getAutoLiqSettings auth a w) = Inr [u])
   \<and> (noRecord (get auth ownerPath (masterid a)) \<and> get auth permPath (masterid a) = Inr (p # ps)
      \<and> truthy (p ''id'')
    \<longrightarrow> fst (getAutoLiqSettings auth a w) = Inr [p])"
  by (auto simp: fst_getAutoLiqSettings fst_tryGet noRecord_def map_add_def
           split: sum.splits option.splits)

text \<open>
  The theorem at three clients: records on both sides (the owner's loss limit 500
  replaces the permissioned 300, the permissioned profit target stays), an owner record
  with the permissioned lookup denied, and a permissioned record with an empty owner
  list.
\<close>

theorem getAutoLiqSettings_merge_witness:
  "fst (getAutoLiqSettings (fixedAuth (Inr [ownerRecord]) (Inr [permRecord]) (Inl unauthorized))
          42 emptyWorld) = Inr [permRecord ++ ownerRecord]
   \<and> (permRecord ++ ownerRecord) ''dailyLossAutoLiq'' = Some (JNum 500)
   \<and> (permRecord ++ ownerRecord) ''dailyProfitAutoLiq'' = Some (JNum 1000)
   \<and> fst (getAutoLiqSettings (fixedAuth (Inr [ownerRecord]) (Inl unauthorized) (Inl unauthorized))
          42 emptyWorld) = Inr [ownerRecord]
   \<and> fst (getAutoLiqSettings (fixedAuth (Inr []) (Inr [permRecord]) (Inl unauthorized))
          42 emptyWorld) = Inr [permRecord]"
  using
    getAutoLiqSettings_merge [of "fixedAuth (Inr [ownerRecord]) (Inr [permRecord]) (Inl unauthorized)"
      42 ownerRecord "[]" permRecord "[]" emptyWorld]
    getAutoLiqSettings_merge [of "fixedAuth (Inr [ownerRecord]) (Inl unauthorized) (Inl unauthorized)"
      42 ownerRecord "[]" permRecord "[]" emptyWorld]
    getAutoLiqSettings_merge [of "fixedAuth (Inr []) (Inr [permRecord]) (Inl unauthorized)"
      42 ownerRecord "[]" permRecord "[]" emptyWorld]
  by (simp add: get_fixedAuth truthy_records noRecord_def denied_unauthorized)
     (simp add: ownerRecord_def permRecord_def)

text \<open>
  Claim C1 as worded asks for the overlay whenever both lookups return a record.  The
  guard \<^verbatim>\<open>if (!perm.id && !user.id) return []\<close> decides otherwise: two records
  without an \<^verbatim>\<open>id\<close>, and likewise two records whose \<^verbatim>\<open>id\<close> is 0, give the empty
  result, not the overlay.
\<close>

theorem getAutoLiqSettings_merge_counterexample:
  "fst (getAutoLiqSettings
          (fixedAuth (Inr [[''dailyLossAutoLiq'' \<mapsto> JNum 500]])
                     (Inr [[''dailyProfitAutoLiq'' \<mapsto> JNum 1000]]) (Inl unauthorized))
          42 emptyWorld)
     \<noteq> Inr [[''dailyProfitAutoLiq'' \<mapsto> JNum 1000] ++ [''dailyLossAutoLiq'' \<mapsto> JNum 500]]
   \<and> fst (getAutoLiqSettings
          (fixedAuth (Inr [[''id'' \<mapsto> JNum 0, ''dailyLossAutoLiq'' \<mapsto> JNum 500]])
                     (Inr [[''id'' \<mapsto> JNum 0, ''dailyProfitAutoLiq'' \<mapsto> JNum 1000]])
                     (Inl unauthorized))
          42 emptyWorld)
     = Inr []"
  by (simp add: fst_getAutoLiqSettings fst_tryGet get_fixedAuth)

text \<open>
  Claim C2, as the code has it.  The read tells failures apart by their message alone.
  A lookup that fails with a message that includes \<^verbatim>\<open>401\<close> or
  \<^verbatim>\<open>Access is denied\<close> is swallowed: the read succeeds with what the other lookup
  returned, and with the empty result when both fail so.  A failure whose message
  includes neither text (and a thrown value that is no \<^verbatim>\<open>Error\<close>), from either
  lookup, is the result of the whole read.
\<close>

theorem getAutoLiqSettings_failures:
  "(get auth ownerPath (masterid a) = Inl e \<and> denied e \<and> get auth permPath (masterid a) = Inr ps
    \<longrightarrow> fst (getAutoLiqSettings auth a w) =
          Inr (if truthy (firstOrEmpty ps ''id'') then [firstOrEmpty ps] else []))
   \<and> (get auth ownerPath (masterid a) = Inr us \<and> get auth permPath (masterid a) = Inl e \<and> denied e
    \<longrightarrow> fst (getAutoLiqSettings auth a w) =
          Inr (if truthy (firstOrEmpty us ''id'') then [firstOrEmpty us] else []))
   \<and> (get auth ownerPath (masterid a) = Inl e \<and> denied e
      \<and> get auth permPath (masterid a) = Inl e' \<and> denied e'
    \<longrightarrow> fst (getAutoLiqSettings auth a w) = Inr [])
   \<and> (get auth ownerPath (masterid a) = Inl e \<and> \<not> denied e
    \<longrightarrow> fst (getAutoLiqSettings auth a w) = Inl e)
   \<and> (get auth ownerPath (masterid a) = Inr us
      \<and> get auth permPath (masterid a) = Inl e \<and> \<not> denied e
    \<longrightarrow> fst (getAutoLiqSettings auth a w) = Inl e)
   \<and> (get auth ownerPath (masterid a) = Inl e' \<and> denied e'
      \<and> get auth permPath (masterid a) = Inl e \<and> \<not> denied e
    \<longrightarrow> fst (getAutoLiqSettings auth a w) = Inl e)"
  by (auto simp: fst_getAutoLiqSettings fst_tryGet split: sum.splits)

text \<open>
  The six cases at concrete clients, with a 401 as the denial and a 429 as the other
  kind of failure.
\<close>

theorem getAutoLiqSettings_failures_witness:
  "fst (getAutoLiqSettings (fixedAuth (Inl unauthorized) (Inr [permRecord]) (Inl unauthorized))
          42 emptyWorld) = Inr [permRecord]
   \<and> fst (getAutoLiqSettings (fixedAuth (Inr [ownerRecord]) (Inl unauthorized) (Inl unauthorized))
          42 emptyWorld) = Inr [ownerRecord]
   \<and> fst (getAutoLiqSettings (fixedAuth (Inl unauthorized) (Inl unauthorized) (Inl unauthorized))
          42 emptyWorld) = Inr []
   \<and> fst (getAutoLiqSettings (fixedAuth (Inl rateLimited) (Inr [permRecord]) (Inl unauthorized))
          42 emptyWorld) = Inl rateLimited
   \<and> fst (getAutoLiqSettings (fixedAuth (Inr [ownerRecord]) (Inl rateLimited) (Inl unauthorized))
          42 emptyWorld) = Inl rateLimited
   \<and> fst (getAutoLiqSettings (fixedAuth (Inl unauthorized) (Inl rateLimited) (Inl unauthorized))
          42 emptyWorld) = Inl rateLimited"
  using
    getAutoLiqSettings_failures [of "fixedAuth (Inl unauthorized) (Inr [permRecord]) (Inl unauthorized)"
      42 unauthorized "[permRecord]" emptyWorld "[]" unauthorized]
    getAutoLiqSettings_failures [of "fixedAuth (Inr [ownerRecord]) (Inl unauthorized) (Inl unauthorized)"
      42 unauthorized "[]" emptyWorld "[ownerRecord]" unauthorized]
    getAutoLiqSettings_failures [of "fixedAuth (Inl unauthorized) (Inl unauthorized) (Inl unauthorized)"
      42 unauthorized "[]" emptyWorld "[]" unauthorized]
    getAutoLiqSettings_failures [of "fixedAuth (Inl rateLimited) (Inr [permRecord]) (Inl unauthorized)"
      42 rateLimited "[]" emptyWorld "[]" unauthorized]
    getAutoLiqSettings_failures [of "fixedAuth (Inr [ownerRecord]) (Inl rateLimited) (Inl unauthorized)"
      42 rateLimited "[]" emptyWorld "[ownerRecord]" unauthorized]
    getAutoLiqSettings_failures [of "fixedAuth (Inl unauthorized) (Inl rateLimited) (Inl unauthorized)"
      42 rateLimited "[]" emptyWorld "[]" unauthorized]
  by (simp add: get_fixedAuth truthy_records denied_unauthorized not_denied_rateLimited)

text \<open>
  Claim C2 as worded has every failure of another kind (not-found, rate-limited,
  transport) fail the whole read.  The kind is read off the message by substring, so a
  rate-limit failure whose message reads
  \<^verbatim>\<open>429 Too Many Requests: retry after 4010 ms\<close> and a transport failure whose
  message reads \<^verbatim>\<open>timeout after 14015 ms\<close> both include \<^verbatim>\<open>401\<close> and are
  swallowed: the read succeeds with the other lookup's record instead of failing with
  that error.
\<close>

theorem getAutoLiqSettings_failures_counterexample:
  "fst (getAutoLiqSettings
          (fixedAuth (Inl (Error ''429 Too Many Requests: retry after 4010 ms''))
                     (Inr [permRecord]) (Inl unauthorized))
          42 emptyWorld)
     = Inr [permRecord]
   \<and> fst (getAutoLiqSettings
          (fixedAuth (Inl (Error ''429 Too Many Requests: retry after 4010 ms''))
                     (Inr [permRecord]) (Inl unauthorized))
          42 emptyWorld)
     \<noteq> Inl (Error ''429 Too Many Requests: retry after 4010 ms'')
   \<and> fst (getAutoLiqSettings
          (fixedAuth (Inr [ownerRecord]) (Inl (Error ''timeout after 14015 ms''))
                     (Inl unauthorized))
          42 emptyWorld)
     = Inr [ownerRecord]"
  by (simp add: fst_getAutoLiqSettings fst_tryGet get_fixedAuth denied_def truthy_records)

text \<open>
  Claim C6.  When neither lookup contributes an identifiable record (each returned a
  list whose first element, if any, has no truthy \<^verbatim>\<open>id\<close>, or was denied), the read
  succeeds with the empty list, and on a cache miss the GET handler answers
  \<^verbatim>\<open>{ success: true, autoLiq: null, cached: false }\<close> and stores nothing.
\<close>

theorem no_settings:
  assumes "unidentified (get auth ownerPath (masterid a))"
      and "unidentified (get auth permPath (masterid a))"
  shows "fst (getAutoLiqSettings auth a w) = Inr []
       \<and> (getCachedRisk a w = None \<longrightarrow>
            fst (getRiskHandler auth a w) = RiskGetResponse None False
          \<and> cache (snd (getRiskHandler auth a w)) = cache w)"
proof -
  have r: "fst (getAutoLiqSettings auth a w) = Inr []"
    using assms
    by (auto simp: fst_getAutoLiqSettings fst_tryGet unidentified_def split: sum.splits)
  obtain w1 where g: "getAutoLiqSettings auth a w = (Inr [], w1)"
    using r by (cases "getAutoLiqSettings auth a w") simp
  have c: "cache w1 = cache w"
    using cache_getAutoLiqSettings [of auth a w] g by simp
  show ?thesis
    using r g c by (simp add: getRiskHandler_def)
qed

theorem no_settings_witness:
  "fst (getAutoLiqSettings (fixedAuth (Inr []) (Inl unauthorized) (Inl unauthorized)) 42 emptyWorld)
     = Inr []
   \<and> fst (getRiskHandler (fixedAuth (Inr []) (Inl unauthorized) (Inl unauthorized)) 42 emptyWorld)
     = RiskGetResponse None False"
  using no_settings [of "fixedAuth (Inr []) (Inl unauthorized) (Inl unauthorized)" 42 emptyWorld]
  by (simp add: get_fixedAuth unidentified_def denied_unauthorized getCachedRisk_def
        cache_get_def emptyWorld_def)

section \<open>The GET handler\<close>

text \<open>
  Claim C7, as the code has it.  On a cache miss, when the owner lookup returns a record
  with a truthy \<^verbatim>\<open>id\<close> and the permissioned lookup is denied, the GET handler answers
  \<^verbatim>\<open>{ success: true, autoLiq: <the owner record>, cached: false }\<close>.
\<close>

theorem scenario_owner_only:
  assumes "getCachedRisk a w = None"
      and "get auth ownerPath (masterid a) = Inr (u # us)"
      and "truthy (u ''id'')"
      and "get auth permPath (masterid a) = Inl e"
      and "denied e"
  shows "fst (getRiskHandler auth a w) = RiskGetResponse (Some u) False"
proof -
  have "fst (getAutoLiqSettings auth a w) = Inr [u]"
    using assms by (simp add: fst_getAutoLiqSettings fst_tryGet)
  then obtain w1 where "getAutoLiqSettings auth a w = (Inr [u], w1)"
    by (cases "getAutoLiqSettings auth a w") simp
  then show ?thesis
    using assms(1) by (simp add: getRiskHandler_def)
qed

text \<open>The scenario for account 42 with the owner record \<^verbatim>\<open>{ id: 1, dailyLossAutoLiq: 500 }\<close>.\<close>

theorem scenario_owner_only_witness:
  "fst (getRiskHandler (ownerOnlyAuth [''id'' \<mapsto> JNum 1, ''dailyLossAutoLiq'' \<mapsto> JNum 500]) 42
          emptyWorld)
     = RiskGetResponse (Some [''id'' \<mapsto> JNum 1, ''dailyLossAutoLiq'' \<mapsto> JNum 500]) False"
  using scenario_owner_only [of 42 emptyWorld
      "ownerOnlyAuth [''id'' \<mapsto> JNum 1, ''dailyLossAutoLiq'' \<mapsto> JNum 500]"
      "[''id'' \<mapsto> JNum 1, ''dailyLossAutoLiq'' \<mapsto> JNum 500]" "[]" "Error ''401 Unauthorized''"]
  by (simp add: getCachedRisk_def cache_get_def emptyWorld_def ownerOnlyAuth_def ownerPath_def
        permPath_def denied_401)

text \<open>
  Claim C7 as worded has the owner endpoint return \<^verbatim>\<open>{ dailyLossAutoLiq: 500 }\<close>, a
  record without an \<^verbatim>\<open>id\<close>.  The read then finds no identifiable record, and the
  handler answers \<^verbatim>\<open>{ success: true, autoLiq: null, cached: false }\<close>.
\<close>

theorem scenario_owner_only_counterexample:
  "fst (getRiskHandler (ownerOnlyAuth [''dailyLossAutoLiq'' \<mapsto> JNum 500]) 42 emptyWorld)
     = RiskGetResponse None False
   \<and> fst (getRiskHandler (ownerOnlyAuth [''dailyLossAutoLiq'' \<mapsto> JNum 500]) 42 emptyWorld)
     \<noteq> RiskGetResponse (Some [''dailyLossAutoLiq'' \<mapsto> JNum 500]) False"
  by (simp add: getRiskHandler_def getCachedRisk_def cache_get_def emptyWorld_def
      getAutoLiqSettings_def tryGet_def auth_get_def ownerOnlyAuth_def ownerPath_def permPath_def
      denied_401)

text \<open>
  Claim C8.  When the cache holds an entry for the account that has not expired, the GET
  handler answers that entry with \<^verbatim>\<open>cached: true\<close> and leaves the world as it was: no
  downstream call is logged, whatever the client would have answered.
\<close>

theorem cache_hit:
  assumes "cache w (riskKey a) = Some e" and "expires e = 0 \<or> now w \<le> expires e"
  shows "getRiskHandler auth a w = (RiskGetResponse (Some (val e)) True, w)"
  using assms by (auto simp: getRiskHandler_def getCachedRisk_def cache_get_def)

theorem cache_hit_witness:
  "getRiskHandler failingAuth 42 (cachedWorld ownerRecord)
     = (RiskGetResponse (Some ownerRecord) True, cachedWorld ownerRecord)"
  using cache_hit [of "cachedWorld ownerRecord" 42 "\<lparr>val = ownerRecord, expires = 5000\<rparr>"
      failingAuth]
  by (simp add: cachedWorld_def)

section \<open>The POST handler\<close>

text \<open>
  Claim C3.  When the POST handler answers success with the record \<open>result\<close>, the
  cache entry of the account afterwards holds \<open>result\<close>, whatever it held before, with
  a fresh expiry; and a GET for the same account within the time to live answers
  \<open>result\<close> from the cache, without a downstream call.
\<close>

theorem write_then_read:
  assumes "postRiskHandler auth a payload w = (RiskSetResponse result, w1)"
      and "d \<le> stdTTL * 1000"
  shows "cache w1 (riskKey a) = Some \<lparr>val = result, expires = now w1 + stdTTL * 1000\<rparr>
       \<and> getRiskHandler auth' a (w1\<lparr>now := now w1 + d\<rparr>) =
           (RiskGetResponse (Some result) True, w1\<lparr>now := now w1 + d\<rparr>)"
proof -
  have c: "cache w1 (riskKey a) = Some \<lparr>val = result, expires = now w1 + stdTTL * 1000\<rparr>"
    using assms(1)
    by (auto simp: postRiskHandler_def Let_def setCachedRisk_def invalidateCachedRisk_def
                   postRiskError_def tokenExpired_def noValidParams_def
             split: if_splits prod.splits sum.splits)
  then show ?thesis
    using assms(2) by (simp add: getRiskHandler_def getCachedRisk_def cache_get_def)
qed

text \<open>
  Account 42: the cache holds \<open>ownerRecord\<close>, the write returns \<open>permRecord\<close>, and a
  read one minute later answers \<open>permRecord\<close>.
\<close>

theorem write_then_read_witness:
  "fst (getRiskHandler failingAuth 42 (cachedWorld ownerRecord))
     = RiskGetResponse (Some ownerRecord) True
   \<and> fst (postRiskHandler writeAuth 42 writePayload (cachedWorld ownerRecord))
     = RiskSetResponse permRecord
   \<and> getRiskHandler failingAuth 42 (afterWrite\<lparr>now := now afterWrite + 60000\<rparr>)
     = (RiskGetResponse (Some permRecord) True, afterWrite\<lparr>now := now afterWrite + 60000\<rparr>)"
proof -
  have p: "postRiskHandler writeAuth 42 writePayload (cachedWorld ownerRecord)
             = (RiskSetResponse permRecord, afterWrite)"
    using post_written [of "cachedWorld ownerRecord"] by (simp add: prod_eq_iff afterWrite_def)
  have d: "(60000::nat) \<le> stdTTL * 1000"
    by (simp add: stdTTL_def)
  have b: "fst (getRiskHandler failingAuth 42 (cachedWorld ownerRecord))
             = RiskGetResponse (Some ownerRecord) True"
    by (simp add: getRiskHandler_def getCachedRisk_def cache_get_def cachedWorld_def)
  show ?thesis
    using write_then_read [OF p d, of failingAuth] b post_written [of "cachedWorld ownerRecord"]
    by simp
qed

text \<open>
  Claim C4.  The settings the POST handler collects hold allow-listed fields only.  The
  body sent downstream carries, outside the allow-list, nothing but the account id of
  the path.  The handler issues one downstream call, the update with that body, when
  the collected settings are not empty, and none when they are empty: then it answers
  400 with the no-valid-parameters text and leaves the world as it was.
\<close>

theorem allow_list:
  "dom (copyFields allowedFields payload Map.empty) \<subseteq> set allowedFields
   \<and> (\<forall>f. f \<notin> set allowedFields \<longrightarrow>
         updateBody a (copyFields allowedFields payload Map.empty) f =
           (if f = ''accountId'' then Some (JNum (of_int a)) else None))
   \<and> calls (snd (postRiskHandler auth a payload w)) =
       (if dom (copyFields allowedFields payload Map.empty) = {} then calls w
        else calls w @ [POST updatePath (updateBody a (copyFields allowedFields payload Map.empty))])
   \<and> (dom (copyFields allowedFields payload Map.empty) = {} \<longrightarrow>
        postRiskHandler auth a payload w = (ErrorResponse 400
       ''No valid risk parameters provided. Include at least one of: dailyLossAutoLiq, dailyProfitAutoLiq, etc.''
       None, w))"
proof -
  have 1: "dom (copyFields allowedFields payload Map.empty) \<subseteq> set allowedFields"
    by (auto simp: dom_def copyFields_apply split: if_splits)
  have 2: "\<forall>f. f \<notin> set allowedFields \<longrightarrow>
         updateBody a (copyFields allowedFields payload Map.empty) f =
           (if f = ''accountId'' then Some (JNum (of_int a)) else None)"
    by (simp add: updateBody_def map_add_def copyFields_apply)
  have 4: "dom (copyFields allowedFields payload Map.empty) = {} \<longrightarrow>
        postRiskHandler auth a payload w = (noValidParams, w)"
    by (simp add: postRiskHandler_def)
  show ?thesis
    using 1 2 4 calls_postRiskHandler [of auth a payload w] by (simp add: noValidParams_def)
qed

text \<open>
  The payload \<^verbatim>\<open>{ connectionRef: "X" }\<close> is rejected with no call logged, and the
  connection reference of a payload with risk fields is not in the downstream body.
\<close>

theorem allow_list_witness:
  "postRiskHandler failingAuth 42 [''connectionRef'' \<mapsto> JStr ''X''] emptyWorld
     = (ErrorResponse 400
       ''No valid risk parameters provided. Include at least one of: dailyLossAutoLiq, dailyProfitAutoLiq, etc.''
       None, emptyWorld)
   \<and> calls (snd (postRiskHandler failingAuth 42 [''connectionRef'' \<mapsto> JStr ''X''] emptyWorld)) = []
   \<and> updateBody 42 (copyFields allowedFields writePayload Map.empty) ''connectionRef'' = None"
proof -
  have e: "dom (copyFields allowedFields [''connectionRef'' \<mapsto> JStr ''X''] Map.empty) = {}"
    by (simp add: connectionRef_only_fields)
  have n: "''connectionRef'' \<notin> set allowedFields"
    by (simp add: allowedFields_def)
  have c: "calls emptyWorld = []"
    by (simp add: emptyWorld_def)
  show ?thesis
    using allow_list [of "[''connectionRef'' \<mapsto> JStr ''X'']" 42 failingAuth emptyWorld]
      allow_list [of writePayload 42 failingAuth emptyWorld] e n c
    by auto
qed

text \<open>
  Claim C10.  The filter keeps a field exactly when it is allow-listed and its value is
  neither absent nor \<^verbatim>\<open>null\<close>.  So a payload with a field set to \<^verbatim>\<open>null\<close> is
  filtered like the payload without that field, an allow-listed field that is
  \<^verbatim>\<open>null\<close> is not in the downstream body, and a payload whose allow-listed fields are
  all absent or \<^verbatim>\<open>null\<close> is answered with the no-valid-parameters response, the world
  unchanged.
\<close>

theorem null_is_absent:
  "(\<forall>f. copyFields allowedFields payload Map.empty f =
         (if f \<in> set allowedFields \<and> payload f \<noteq> None \<and> payload f \<noteq> Some JNull
          then payload f else None))
   \<and> copyFields allowedFields (payload(f \<mapsto> JNull)) Map.empty =
       copyFields allowedFields (payload(f := None)) Map.empty
   \<and> (f \<in> set allowedFields \<and> payload f = Some JNull \<longrightarrow>
        updateBody a (copyFields allowedFields payload Map.empty) f = None)
   \<and> ((\<forall>g \<in> set allowedFields. payload g = None \<or> payload g = Some JNull) \<longrightarrow>
        postRiskHandler auth a payload w = (noValidParams, w))"
proof -
  have 1: "\<forall>f. copyFields allowedFields payload Map.empty f =
         (if f \<in> set allowedFields \<and> payload f \<noteq> None \<and> payload f \<noteq> Some JNull
          then payload f else None)"
    by (simp add: copyFields_apply)
  have 2: "copyFields allowedFields (payload(f \<mapsto> JNull)) Map.empty =
       copyFields allowedFields (payload(f := None)) Map.empty"
    by (rule ext) (simp add: copyFields_apply)
  have "''accountId'' \<notin> set allowedFields"
    by (simp add: allowedFields_def)
  then have 3: "f \<in> set allowedFields \<and> payload f = Some JNull \<longrightarrow>
        updateBody a (copyFields allowedFields payload Map.empty) f = None"
    by (auto simp: updateBody_def map_add_def copyFields_apply)
  have 4: "(\<forall>g \<in> set allowedFields. payload g = None \<or> payload g = Some JNull) \<longrightarrow>
        postRiskHandler auth a payload w = (noValidParams, w)"
    using copyFields_empty_iff [of allowedFields payload]
    by (simp add: postRiskHandler_def)
  show ?thesis using 1 2 3 4 by blast
qed

text \<open>
  A \<^verbatim>\<open>null\<close> loss limit is dropped from a payload that has other risk fields, and a
  payload whose two risk fields are both \<^verbatim>\<open>null\<close> is rejected.
\<close>

theorem null_is_absent_witness:
  "copyFields allowedFields (writePayload(''dailyLossAutoLiq'' \<mapsto> JNull)) Map.empty
     = copyFields allowedFields (writePayload(''dailyLossAutoLiq'' := None)) Map.empty
   \<and> updateBody 42
         (copyFields allowedFields (writePayload(''dailyLossAutoLiq'' \<mapsto> JNull)) Map.empty)
         ''dailyLossAutoLiq'' = None
   \<and> postRiskHandler writeAuth 42
        [''connectionRef'' \<mapsto> JStr ''TS-1'', ''dailyLossAutoLiq'' \<mapsto> JNull,
         ''dailyProfitAutoLiq'' \<mapsto> JNull] emptyWorld
     = (noValidParams, emptyWorld)"
proof -
  let ?nulls = "[''connectionRef'' \<mapsto> JStr ''TS-1'', ''dailyLossAutoLiq'' \<mapsto> JNull,
         ''dailyProfitAutoLiq'' \<mapsto> JNull]"
  let ?p = "writePayload(''dailyLossAutoLiq'' \<mapsto> JNull)"
  have a: "\<forall>g \<in> set allowedFields. ?nulls g = None \<or> ?nulls g = Some JNull"
    by (simp add: allowedFields_def)
  have m: "''dailyLossAutoLiq'' \<in> set allowedFields \<and> ?p ''dailyLossAutoLiq'' = Some JNull"
    by (simp add: allowedFields_def)
  note t1 = null_is_absent [of ?p "''dailyLossAutoLiq''" 42 writeAuth emptyWorld]
  note t2 = null_is_absent [of ?nulls "''dailyLossAutoLiq''" 42 writeAuth emptyWorld]
  have 1: "copyFields allowedFields ?p Map.empty
             = copyFields allowedFields (writePayload(''dailyLossAutoLiq'' := None)) Map.empty"
    using t1 by (simp only: fun_upd_upd)
  have 2: "updateBody 42 (copyFields allowedFields ?p Map.empty) ''dailyLossAutoLiq'' = None"
    using t1 m by blast
  have 3: "postRiskHandler writeAuth 42 ?nulls emptyWorld = (noValidParams, emptyWorld)"
    using t2 a by blast
  show ?thesis
    using 1 2 3 by (intro conjI)
qed

section \<open>The downstream update response\<close>

text \<open>
  Claim C5.  Given the response of the downstream update: a non-empty error text makes
  the write fail with an error whose message ends in (so includes) that text; without
  an error text the write returns the owner-shaped entity when there is one, else the
  permissioned-shaped entity, and fails with the no-entity-returned error when there is
  neither.
\<close>

theorem setAutoLiqSettings_response:
  assumes "post auth updatePath (updateBody a settings) = Inr result"
  shows "(errorText result = Some t \<and> t \<noteq> [] \<longrightarrow>
            fst (setAutoLiqSettings auth a settings w) =
              Inl (Error (''Failed to set auto-liq for account '' @ toString a @ '': '' @ t))
          \<and> includes_str (''Failed to set auto-liq for account '' @ toString a @ '': '' @ t) t)
       \<and> ((errorText result = None \<or> errorText result = Some [])
            \<and> userAccountAutoLiq result = Some u \<longrightarrow>
            fst (setAutoLiqSettings auth a settings w) = Inr u)
       \<and> ((errorText result = None \<or> errorText result = Some [])
            \<and> userAccountAutoLiq result = None \<and> permissionedAccountAutoLiq result = Some p \<longrightarrow>
            fst (setAutoLiqSettings auth a settings w) = Inr p)
       \<and> ((errorText result = None \<or> errorText result = Some [])
            \<and> userAccountAutoLiq result = None \<and> permissionedAccountAutoLiq result = None \<longrightarrow>
            fst (setAutoLiqSettings auth a settings w) =
              Inl (Error (''No auto-liq entity returned for account '' @ toString a)))"
proof -
  have "includes_str ((''Failed to set auto-liq for account '' @ toString a @ '': '') @ t) t"
    by (rule includes_str_append)
  then show ?thesis
    using assms
    by (auto simp: setAutoLiqSettings_def auth_post_def entityOf_def neq_Nil_conv)
qed

text \<open>
  Four responses for account 42: an error text, both shapes (the owner shape is taken),
  the permissioned shape only with an empty error text, and no shape at all.
\<close>

theorem setAutoLiqSettings_response_witness:
  "fst (setAutoLiqSettings (fixedAuth (Inr []) (Inr [])
          (updateAnswer (Some ''Unsupported parameters'') None None)) 42 Map.empty emptyWorld)
     = Inl (Error ''Failed to set auto-liq for account 42: Unsupported parameters'')
   \<and> fst (setAutoLiqSettings (fixedAuth (Inr []) (Inr [])
          (updateAnswer None (Some ownerRecord) (Some permRecord))) 42 Map.empty emptyWorld)
     = Inr ownerRecord
   \<and> fst (setAutoLiqSettings (fixedAuth (Inr []) (Inr [])
          (updateAnswer (Some []) None (Some permRecord))) 42 Map.empty emptyWorld)
     = Inr permRecord
   \<and> fst (setAutoLiqSettings (fixedAuth (Inr []) (Inr [])
          (updateAnswer None None None)) 42 Map.empty emptyWorld)
     = Inl (Error ''No auto-liq entity returned for account 42'')"
  using
    setAutoLiqSettings_response [of "fixedAuth (Inr []) (Inr [])
          (updateAnswer (Some ''Unsupported parameters'') None None)" 42 Map.empty
      "\<lparr>errorText = Some ''Unsupported parameters'', userAccountAutoLiq = None,
        permissionedAccountAutoLiq = None\<rparr>" "''Unsupported parameters''" emptyWorld
      ownerRecord permRecord]
    setAutoLiqSettings_response [of "fixedAuth (Inr []) (Inr [])
          (updateAnswer None (Some ownerRecord) (Some permRecord))" 42 Map.empty
      "\<lparr>errorText = None, userAccountAutoLiq = Some ownerRecord,
        permissionedAccountAutoLiq = Some permRecord\<rparr>" "''Unsupported parameters''" emptyWorld
      ownerRecord permRecord]
    setAutoLiqSettings_response [of "fixedAuth (Inr []) (Inr [])
          (updateAnswer (Some []) None (Some permRecord))" 42 Map.empty
      "\<lparr>errorText = Some [], userAccountAutoLiq = None,
        permissionedAccountAutoLiq = Some permRecord\<rparr>" "''Unsupported parameters''" emptyWorld
      ownerRecord permRecord]
    setAutoLiqSettings_response [of "fixedAuth (Inr []) (Inr [])
          (updateAnswer None None None)" 42 Map.empty
      "\<lparr>errorText = None, userAccountAutoLiq = None,
        permissionedAccountAutoLiq = None\<rparr>" "''Unsupported parameters''" emptyWorld
      ownerRecord permRecord]
  by (simp add: post_fixedAuth updateAnswer_def toString_42)

section \<open>Connection resolution\<close>

text \<open>
  Claim C9 asks for a 404 whenever the credential record has no usable token.  For a
  verified user and the connection \<^verbatim>\<open>TS-1\<close> whose stored token is the empty string,
  the Hapi scheme over Supabase answers 401 with the token-is-empty message, since the
  \<^verbatim>\<open>catch\<close> block sends to 404 only a message that includes
  \<^verbatim>\<open>No Tradovate token found\<close>; the Express middleware over the Realtime Database
  answers 404 for the same record.  Neither constructs a client.  A lookup miss for a
  connection reference that reads \<^verbatim>\<open>Decoding Firebase\<close> is answered 401 as well.
\<close>

theorem empty_token_is_401:
  "authPlugin verifiedUser emptyTokenTable refRequest
     = Takeover 401 ''Token is empty for user u1, connection TS-1''
   \<and> firebaseAuth verifiedUser emptyTokenDb refRequest
     = Takeover 404 ''No Tradovate token found for user u1, connection TS-1''
   \<and> firebaseAuth verifiedUser (\<lambda>path. None) (refRequest\<lparr>queryRef := Some ''Decoding Firebase''\<rparr>)
     = Takeover 401 ''Invalid or expired auth token''"
  by (simp add: authPlugin_def firebaseAuth_def authenticateWith_def refRequest_def
        verifiedUser_def connectionRefOf_def getConnectionToken_supabase_def
        getConnectionToken_firebase_def emptyTokenTable_def emptyTokenDb_def emptyTokenRow_def
        tokenEmpty_def noTokenFound_def authError_def)

end
